theory Spec2Isabelle
  imports Main "HOL-Library.Word"
begin

unbundle bit_operations_syntax

section \<open>Machine types shared by the three source files\<close>

type_synonym BYTE = "8 word"
type_synonym WORD = "16 word"
type_synonym DWORD = "32 word"
type_synonym UINT32 = "32 word"

text \<open>Window handles are pointers; the enumerator is modelled as a 64-bit build.\<close>

type_synonym HWND = "64 word"

subsection \<open>Decimal output of unsigned integers\<close>

text \<open>
  \<^verbatim>\<open>std::cout << n\<close> for an unsigned integer writes its decimal digits, most
  significant first, without sign or padding.
\<close>

definition digit_char :: "nat \<Rightarrow> char" where
  "digit_char d = ''0123456789'' ! d"

fun dec :: "nat \<Rightarrow> string" where
  "dec n = (if n < 10 then [digit_char n] else dec (n div 10) @ [digit_char (n mod 10)])"

declare dec.simps [simp del]

section \<open>ProcessList.cpp: the Process Enumerator\<close>

text \<open>
  What the platform knows about one top-level window, as far as \<^verbatim>\<open>EnumWindowsProc\<close>
  asks for it: the handle, the answer of \<^verbatim>\<open>IsWindowVisible\<close>, the window text in the
  ANSI code page, the owner reported by \<^verbatim>\<open>GetWindowThreadProcessId\<close>, whether
  \<^verbatim>\<open>OpenProcess\<close> returns a handle, and the name \<^verbatim>\<open>GetModuleBaseNameA\<close> writes
  (\<open>None\<close> when it returns 0).
\<close>

record top_level_window =
  hwnd_of :: HWND
  is_visible :: bool
  window_text :: string
  owner_process :: DWORD
  process_openable :: bool
  module_base_name :: "string option"

text \<open>\<^verbatim>\<open>struct WindowInfo\<close>.\<close>

record WindowInfo =
  windowHandle :: HWND
  windowTitle :: string
  processName :: string
  processId :: DWORD

text \<open>
  \<^verbatim>\<open>GetWindowTextA(hwnd, buffer, nMaxCount)\<close> copies at most \<open>nMaxCount - 1\<close> characters
  of the window text and terminates them with NUL. The platform function is not part of
  the repository; this is its documented behaviour.
\<close>

definition GetWindowTextA :: "string \<Rightarrow> nat \<Rightarrow> string" where
  "GetWindowTextA text nMaxCount = take (nMaxCount - 1) text"

text \<open>A character array read as a C string ends before its first NUL.\<close>

definition c_string :: "string \<Rightarrow> string" where
  "c_string buffer = takeWhile (\<lambda>c. c \<noteq> CHR 0x00) buffer"

text \<open>\<^verbatim>\<open>char windowTitle[256]; GetWindowTextA(hwnd, windowTitle, sizeof(windowTitle));\<close>\<close>

definition read_title :: "top_level_window \<Rightarrow> string" where
  "read_title hwnd = c_string (GetWindowTextA (window_text hwnd) 256)"

definition read_process_name :: "top_level_window \<Rightarrow> string" where
  "read_process_name hwnd =
     (if process_openable hwnd then
        (case module_base_name hwnd of Some name \<Rightarrow> name | None \<Rightarrow> ''Unknown'')
      else ''Unknown'')"

definition make_info :: "top_level_window \<Rightarrow> WindowInfo" where
  "make_info hwnd =
     \<lparr>windowHandle = hwnd_of hwnd,
      windowTitle = read_title hwnd,
      processName = read_process_name hwnd,
      processId = owner_process hwnd\<rparr>"

text \<open>
  \<^verbatim>\<open>EnumWindowsProc\<close>: the vector behind \<open>lParam\<close> is passed in and returned; the
  boolean is the callback's result (\<open>TRUE\<close>: continue the enumeration).
\<close>

definition EnumWindowsProc :: "top_level_window \<Rightarrow> WindowInfo list \<Rightarrow> bool \<times> WindowInfo list" where
  "EnumWindowsProc hwnd windows =
     (if is_visible hwnd then
        (if length (read_title hwnd) > 0 then (True, windows @ [make_info hwnd])
         else (True, windows))
      else (True, windows))"

text \<open>
  \<^verbatim>\<open>EnumWindows\<close> calls the callback on every top-level window, in the platform's
  order, until the callback returns \<open>FALSE\<close>.
\<close>

fun EnumWindows :: "top_level_window list \<Rightarrow> WindowInfo list \<Rightarrow> WindowInfo list" where
  "EnumWindows [] windows = windows"
| "EnumWindows (hwnd # rest) windows =
     (case EnumWindowsProc hwnd windows of
        (continue, windows') \<Rightarrow> if continue then EnumWindows rest windows' else windows')"

text \<open>The loop of \<^verbatim>\<open>main\<close> that copies the entries with a non-empty title.\<close>

fun filter_titled :: "WindowInfo list \<Rightarrow> WindowInfo list \<Rightarrow> WindowInfo list" where
  "filter_titled [] appsWithTitles = appsWithTitles"
| "filter_titled (app # rest) appsWithTitles =
     (if windowTitle app \<noteq> [] then filter_titled rest (appsWithTitles @ [app])
      else filter_titled rest appsWithTitles)"

text \<open>
  One iteration of \<^verbatim>\<open>PrintApplicationsWithWindows\<close>. The handle is cast to
  \<^verbatim>\<open>unsigned long\<close>, which has 32 bits on the platform.
\<close>

definition print_app :: "WindowInfo \<Rightarrow> string" where
  "print_app app =
     dec (unat (processId app)) @ '';'' @
     dec (unat (ucast (windowHandle app) :: 32 word)) @ '';'' @
     windowTitle app @ [CHR 0x0A]"

fun PrintApplicationsWithWindows :: "WindowInfo list \<Rightarrow> string \<Rightarrow> string" where
  "PrintApplicationsWithWindows [] out = out"
| "PrintApplicationsWithWindows (app # apps) out =
     PrintApplicationsWithWindows apps (out @ print_app app)"

text \<open>The vector \<^verbatim>\<open>main\<close> hands to the printer, and what \<^verbatim>\<open>main\<close> writes to standard output.\<close>

definition appsWithTitles :: "top_level_window list \<Rightarrow> WindowInfo list" where
  "appsWithTitles desktop = filter_titled (EnumWindows desktop []) []"

definition ProcessList_main :: "top_level_window list \<Rightarrow> string" where
  "ProcessList_main desktop = PrintApplicationsWithWindows (appsWithTitles desktop) []"

text \<open>A window is listed when it is visible and the title read into the buffer is not empty.\<close>

definition listed :: "top_level_window \<Rightarrow> bool" where
  "listed hwnd = (is_visible hwnd \<and> read_title hwnd \<noteq> [])"

section \<open>ApplicationLoopback.cpp: the command line\<close>

text \<open>
  \<^verbatim>\<open>wchar_t\<close> is a 16-bit code unit on the platform; a wide C string is the list of
  its code units before the terminating NUL.
\<close>

type_synonym wchar_t = "16 word"
type_synonym wstring = "wchar_t list"

text \<open>The literal \<^verbatim>\<open>L"exclude"\<close>.\<close>

definition L_exclude :: wstring where
  "L_exclude = [0x65, 0x78, 0x63, 0x6C, 0x75, 0x64, 0x65]"

text \<open>
  \<^verbatim>\<open>wcscmp\<close> of the C runtime: the sign of the first difference between the two
  strings, code units compared as unsigned numbers and the end of a string coming before
  every code unit (the terminator is 0 and no code unit of the list is).
\<close>

fun wcscmp :: "wstring \<Rightarrow> wstring \<Rightarrow> int" where
  "wcscmp [] [] = 0"
| "wcscmp [] (y # ys) = - 1"
| "wcscmp (x # xs) [] = 1"
| "wcscmp (x # xs) (y # ys) =
     (if x < y then - 1 else if y < x then 1 else wcscmp xs ys)"

text \<open>
  \<^verbatim>\<open>HRESULT\<close> is a signed 32-bit integer; \<^verbatim>\<open>FAILED(hr)\<close> is \<^verbatim>\<open>((HRESULT)(hr)) < 0\<close>.
\<close>

type_synonym HRESULT = "32 word"

definition S_OK :: HRESULT where
  "S_OK = 0"

definition E_FAIL :: HRESULT where
  "E_FAIL = 0x80004005"

definition FAILED :: "HRESULT \<Rightarrow> bool" where
  "FAILED hr = (sint hr < 0)"

text \<open>
  What \<^verbatim>\<open>wmain\<close> takes from outside the repository: \<^verbatim>\<open>wcstoul(s, nullptr, 0)\<close>
  of the C runtime, the result of \<^verbatim>\<open>_setmode(_fileno(stdout), _O_BINARY)\<close>, and
  \<^verbatim>\<open>CLoopbackCapture::StartCaptureAsync\<close>, whose header is not among the sources.
\<close>

record runtime =
  wcstoul :: "wstring \<Rightarrow> DWORD"
  setmode_result :: int
  StartCaptureAsync :: "DWORD \<Rightarrow> bool \<Rightarrow> HRESULT"

text \<open>
  Every way \<^verbatim>\<open>wmain\<close> returns, with the arguments of the capture call when it is made.
  The messages written to \<^verbatim>\<open>std::wcout\<close> and \<^verbatim>\<open>std::wcerr\<close> are told apart by the
  outcome; a started capture waits for one character of input before it returns.
\<close>

datatype wmain_outcome =
    Usage_shown
  | Invalid_process_ID
  | Setmode_failed
  | Capture_failed DWORD bool HRESULT
  | Capture_started DWORD bool

fun exit_code :: "wmain_outcome \<Rightarrow> int" where
  "exit_code Usage_shown = 0"
| "exit_code Invalid_process_ID = 1"
| "exit_code Setmode_failed = 1"
| "exit_code (Capture_failed pid incl hr) = 1"
| "exit_code (Capture_started pid incl) = 0"

text \<open>The value of the local \<^verbatim>\<open>include\<close> after lines 27 to 32; \<open>argc\<close> is \<open>length argv\<close>.\<close>

definition include_flag :: "wstring list \<Rightarrow> bool" where
  "include_flag argv =
     (let include = True in
      if length argv \<ge> 3 then
        (if wcscmp (argv ! 2) L_exclude = 0 then False else include)
      else include)"

definition wmain :: "runtime \<Rightarrow> wstring list \<Rightarrow> wmain_outcome" where
  "wmain rt argv =
     (if length argv < 2 then Usage_shown
      else
        let processId = wcstoul rt (argv ! 1) in
        if processId = 0 then Invalid_process_ID
        else
          let include = include_flag argv in
          if setmode_result rt = - 1 then Setmode_failed
          else
            let hr = StartCaptureAsync rt processId include in
            if FAILED hr then Capture_failed processId include hr
            else Capture_started processId include)"

text \<open>The mode a run of \<^verbatim>\<open>wmain\<close> asks the capture for, when it asks.\<close>

fun requested_include :: "wmain_outcome \<Rightarrow> bool option" where
  "requested_include (Capture_failed pid incl hr) = Some incl"
| "requested_include (Capture_started pid incl) = Some incl"
| "requested_include outcome = None"

section \<open>LoopbackTest.cpp: the capture session\<close>

text \<open>
  The class \<^verbatim>\<open>LoopbackCapture\<close> with its constructor, the activation callback,
  \<^verbatim>\<open>OnAudioClientReady\<close>, \<^verbatim>\<open>StopCapture\<close> and \<^verbatim>\<open>CaptureThread\<close>. The method
  \<^verbatim>\<open>Initialize\<close>, which submits the activation request, and the destructor take no part
  in the properties below and are left out.
\<close>

subsection \<open>Platform types and constants\<close>

text \<open>
  A \<^verbatim>\<open>HANDLE\<close> is an opaque number with \<open>NULL\<close> as 0; a COM pointer is \<open>None\<close> when
  null and otherwise names the object it points to.
\<close>

type_synonym HANDLE = nat
type_synonym com_ptr = "nat option"

definition NULL :: HANDLE where
  "NULL = 0"

text \<open>\<^verbatim>\<open>REFERENCE_TIME\<close> is a 64-bit count of 100-nanosecond units.\<close>

type_synonym REFERENCE_TIME = "64 word"

record WAVEFORMATEX =
  wFormatTag :: WORD
  nChannels :: WORD
  nSamplesPerSec :: DWORD
  nAvgBytesPerSec :: DWORD
  nBlockAlign :: WORD
  wBitsPerSample :: WORD
  cbSize :: WORD

text \<open>Values of the platform headers (\<^verbatim>\<open>mmreg.h\<close>, \<^verbatim>\<open>audioclient.h\<close>, \<^verbatim>\<open>audiosessiontypes.h\<close>).\<close>

definition WAVE_FORMAT_PCM :: WORD where
  "WAVE_FORMAT_PCM = 1"

definition AUDCLNT_SHAREMODE_SHARED :: DWORD where
  "AUDCLNT_SHAREMODE_SHARED = 0"

definition AUDCLNT_STREAMFLAGS_LOOPBACK :: DWORD where
  "AUDCLNT_STREAMFLAGS_LOOPBACK = 0x00020000"

definition AUDCLNT_STREAMFLAGS_EVENTCALLBACK :: DWORD where
  "AUDCLNT_STREAMFLAGS_EVENTCALLBACK = 0x00040000"

definition AUDCLNT_STREAMFLAGS_AUTOCONVERTPCM :: DWORD where
  "AUDCLNT_STREAMFLAGS_AUTOCONVERTPCM = 0x80000000"

subsection \<open>The session, the platform and the trace of platform calls\<close>

text \<open>
  Every call the session makes into the platform is appended to a trace. The arguments of
  \<^verbatim>\<open>IAudioClient::Initialize\<close> are recorded in the order of its signature: share mode,
  stream flags, buffer duration, periodicity, format. \<^verbatim>\<open>GetBuffer\<close> and
  \<^verbatim>\<open>ReleaseBuffer\<close> are the two remaining methods of the packet reader.
\<close>

datatype call =
    CoInitializeEx
  | CreateEvent bool bool
  | GetActivateResult
  | QueryInterface_IAudioClient
  | IUnknown_Release
  | AudioClient_Initialize DWORD DWORD REFERENCE_TIME REFERENCE_TIME WAVEFORMATEX
  | AudioClient_GetBufferSize
  | AudioClient_GetService
  | AudioClient_Start
  | AudioClient_Stop
  | CreateThread
  | CloseHandle HANDLE
  | Sleep DWORD
  | CaptureClient_GetNextPacketSize
  | CaptureClient_GetBuffer
  | CaptureClient_ReleaseBuffer UINT32

text \<open>Where the Capture Thread stands in \<^verbatim>\<open>CaptureThread\<close>.\<close>

datatype thread_pc =
    No_thread
  | At_entry
  | At_while
  | At_Sleep
  | At_GetNextPacketSize
  | Returned
  | Faulted

record AudioPacket =
  frameCount :: UINT32
  data :: "BYTE list"

text \<open>
  The members of \<^verbatim>\<open>LoopbackCapture\<close> and of its \<^verbatim>\<open>AudioInterfaceActivateHandler\<close>
  (prefixed \<open>handler_\<close>), followed by what surrounds them: the trace, the characters
  written to \<^verbatim>\<open>std::cout\<close>, the Capture Thread, and a scripted stream. The stream holds
  the packets queued in its ring buffer, oldest first, and the results its next
  \<^verbatim>\<open>GetNextPacketSize\<close> calls return (\<open>S_OK\<close> once the script is used up).
\<close>

record world =
  m_captureClient :: com_ptr
  m_captureReadyEvent :: HANDLE
  m_captureEvent :: HANDLE
  m_stopEvent :: HANDLE
  bufferFrameCount :: UINT32
  m_captureThread :: HANDLE
  m_capturing :: bool
  m_audioClient :: com_ptr
  handler_m_parent :: bool
  handler_m_audioClient :: com_ptr
  calls :: "call list"
  cout :: string
  thread :: thread_pc
  queued :: "AudioPacket list"
  packet_size_results :: "HRESULT list"

text \<open>The answers of the platform to the calls that are made once per session.\<close>

record platform =
  GetActivateResult_hr :: HRESULT
  GetActivateResult_activateResult :: HRESULT
  GetActivateResult_interface :: com_ptr
  QueryInterface_hr :: HRESULT
  QueryInterface_out :: com_ptr
  Initialize_hr :: HRESULT
  GetBufferSize_hr :: HRESULT
  GetBufferSize_frames :: UINT32
  GetService_hr :: HRESULT
  GetService_out :: com_ptr
  Start_hr :: HRESULT
  CreateThread_handle :: HANDLE
  Stop_hr :: HRESULT

definition call :: "call \<Rightarrow> world \<Rightarrow> world" where
  "call c w = w\<lparr>calls := calls w @ [c]\<rparr>"

definition print :: "string \<Rightarrow> world \<Rightarrow> world" where
  "print s w = w\<lparr>cout := cout w @ s\<rparr>"

definition endl :: string where
  "endl = [CHR 0x0A]"

text \<open>\<^verbatim>\<open>std::cout << hr\<close>: a \<^verbatim>\<open>HRESULT\<close> is a \<^verbatim>\<open>long\<close> and is written in signed decimal.\<close>

definition show_hr :: "HRESULT \<Rightarrow> string" where
  "show_hr hr = (if sint hr < 0 then ''-'' @ dec (nat (- sint hr)) else dec (nat (sint hr)))"

subsection \<open>The constructor\<close>

text \<open>
  The constructor creates the three events and the handler, and sets the handler's parent.
  It leaves \<^verbatim>\<open>m_captureThread\<close> and \<^verbatim>\<open>bufferFrameCount\<close> uninitialised: their
  indeterminate values are parameters, as are the handles \<^verbatim>\<open>CreateEvent\<close> returns.
\<close>

definition LoopbackCapture :: "HANDLE \<Rightarrow> HANDLE \<Rightarrow> HANDLE \<Rightarrow> HANDLE \<Rightarrow> UINT32 \<Rightarrow> world" where
  "LoopbackCapture readyEvent stopEvent captureEvent garbageThread garbageCount =
     \<lparr>m_captureClient = None,
      m_captureReadyEvent = readyEvent,
      m_captureEvent = captureEvent,
      m_stopEvent = stopEvent,
      bufferFrameCount = garbageCount,
      m_captureThread = garbageThread,
      m_capturing = False,
      m_audioClient = None,
      handler_m_parent = True,
      handler_m_audioClient = None,
      calls = [CoInitializeEx, CreateEvent True False, CreateEvent True False,
               CreateEvent False False],
      cout = ''HERE?'' @ ''HERE2?'' @ ''HERE3?'',
      thread = No_thread,
      queued = [],
      packet_size_results = []\<rparr>"

subsection \<open>OnAudioClientReady\<close>

text \<open>
  The capture format, field by field. \<^verbatim>\<open>nChannels * wBitsPerSample / 8\<close> is computed
  in \<^verbatim>\<open>int\<close> and narrowed to a \<^verbatim>\<open>WORD\<close>; \<^verbatim>\<open>nSamplesPerSec * nBlockAlign\<close> is a
  32-bit unsigned product.
\<close>

definition captureFormat :: WAVEFORMATEX where
  "captureFormat =
     (let f0 = \<lparr>wFormatTag = 0, nChannels = 0, nSamplesPerSec = 0, nAvgBytesPerSec = 0,
                nBlockAlign = 0, wBitsPerSample = 0, cbSize = 0\<rparr>;
          f1 = f0\<lparr>wFormatTag := WAVE_FORMAT_PCM\<rparr>;
          f2 = f1\<lparr>nChannels := 2\<rparr>;
          f3 = f2\<lparr>nSamplesPerSec := 44100\<rparr>;
          f4 = f3\<lparr>wBitsPerSample := 16\<rparr>;
          f5 = f4\<lparr>nBlockAlign := word_of_int (uint (nChannels f4) * uint (wBitsPerSample f4) div 8)\<rparr>
      in f5\<lparr>nAvgBytesPerSec := nSamplesPerSec f5 * ucast (nBlockAlign f5)\<rparr>)"

text \<open>The third argument of \<^verbatim>\<open>Initialize\<close>, \<open>hnsBufferDuration\<close>.\<close>

definition hnsBufferDuration :: REFERENCE_TIME where
  "hnsBufferDuration = 200000"

definition Initialize_call :: call where
  "Initialize_call =
     AudioClient_Initialize AUDCLNT_SHAREMODE_SHARED
       (AUDCLNT_STREAMFLAGS_LOOPBACK OR AUDCLNT_STREAMFLAGS_EVENTCALLBACK)
       hnsBufferDuration
       (ucast AUDCLNT_STREAMFLAGS_AUTOCONVERTPCM)
       captureFormat"

text \<open>
  The result of \<^verbatim>\<open>Initialize\<close> is printed and then overwritten by the result of
  \<^verbatim>\<open>GetBufferSize\<close>; the test after \<^verbatim>\<open>"Here12?"\<close> is on that same value.
\<close>

definition OnAudioClientReady :: "platform \<Rightarrow> world \<Rightarrow> HRESULT \<times> world" where
  "OnAudioClientReady p w0 =
     (if m_audioClient w0 = None then (E_FAIL, print ''Here10?'' w0)
      else
        let w1 = call Initialize_call w0;
            hr = Initialize_hr p;
            w2 = print (''Here11?'' @ show_hr hr) w1;
            w3 = call AudioClient_GetBufferSize w2;
            hr = GetBufferSize_hr p;
            w4 = (if FAILED hr then w3 else w3\<lparr>bufferFrameCount := GetBufferSize_frames p\<rparr>)
        in
        if FAILED hr then (hr, print (''Here16?'' @ show_hr hr) w4)
        else
          let w5 = print (''Here12?'' @ show_hr hr) w4 in
          if FAILED hr then (hr, w5)
          else
            let w6 = call AudioClient_GetService w5;
                hr = GetService_hr p;
                w7 = w6\<lparr>m_captureClient := (if FAILED hr then None else GetService_out p)\<rparr>
            in
            if FAILED hr then (hr, w7)
            else
              let w8 = print (''Here13?'' @ show_hr hr) w7;
                  w9 = print (''Starting...'' @ endl) w8;
                  w10 = call AudioClient_Start w9;
                  hr = Start_hr p
              in
              if FAILED hr then (hr, w10)
              else
                let w11 = print (''Started loopback capture...'' @ endl) w10;
                    w12 = w11\<lparr>m_capturing := True\<rparr>;
                    w13 = call CreateThread w12;
                    w14 = w13\<lparr>m_captureThread := CreateThread_handle p,
                              thread := (if CreateThread_handle p = NULL then thread w13
                                         else At_entry)\<rparr>
                in (hr, w14))"

subsection \<open>ActivateCompleted\<close>

text \<open>
  The handler's callback. The result of \<^verbatim>\<open>OnAudioClientReady\<close> is dropped by the
  callback, which goes on to release the interface and returns \<open>S_OK\<close>.
\<close>

definition ActivateCompleted :: "platform \<Rightarrow> world \<Rightarrow> HRESULT \<times> world" where
  "ActivateCompleted p w0 =
     (let w1 = print (''ACTIVATED'' @ endl) w0;
          w2 = call GetActivateResult w1;
          hr = GetActivateResult_hr p;
          activateResult = GetActivateResult_activateResult p;
          punkAudioInterface = GetActivateResult_interface p
      in
      if FAILED hr \<or> FAILED activateResult \<or> punkAudioInterface = None then (E_FAIL, w2)
      else
        let w3 = call QueryInterface_IAudioClient w2;
            hr = QueryInterface_hr p;
            w4 = w3\<lparr>handler_m_audioClient := (if FAILED hr then None else QueryInterface_out p)\<rparr>
        in
        if FAILED hr then (hr, call IUnknown_Release w4)
        else
          let w5 = (if handler_m_parent w4
                    then snd (OnAudioClientReady p (w4\<lparr>m_audioClient := handler_m_audioClient w4\<rparr>))
                    else w4);
              w6 = call IUnknown_Release w5;
              w7 = print (''ALL GOOD'' @ endl) w6
          in (S_OK, w7))"

subsection \<open>StopCapture\<close>

datatype fault = Null_dereference

text \<open>
  \<^verbatim>\<open>StopCapture\<close>. Calling through a null \<^verbatim>\<open>m_audioClient\<close> is a fault of the process.
\<close>

definition StopCapture :: "platform \<Rightarrow> world \<Rightarrow> fault + HRESULT \<times> world" where
  "StopCapture p w0 =
     (if \<not> m_capturing w0 then Inr (S_OK, w0)
      else
        let w1 = w0\<lparr>m_capturing := False\<rparr>;
            w2 = (if m_captureThread w1 \<noteq> NULL
                  then (call (CloseHandle (m_captureThread w1)) w1)\<lparr>m_captureThread := NULL\<rparr>
                  else w1)
        in
        case m_audioClient w2 of
          None \<Rightarrow> Inl Null_dereference
        | Some client \<Rightarrow>
            let w3 = call AudioClient_Stop w2;
                hr = Stop_hr p;
                w4 = call (CloseHandle (m_captureEvent w3)) w3;
                w5 = w4\<lparr>m_captureEvent := NULL\<rparr>
            in Inr (hr, w5))"

subsection \<open>CaptureThread\<close>

text \<open>
  \<^verbatim>\<open>IAudioCaptureClient::GetNextPacketSize\<close> on the scripted stream: it takes the next
  scripted result and, on success, reports the frame count of the oldest queued packet
  (0 when the queue is empty) without removing it. The caller's \<open>packetLength\<close> keeps its
  initial 0 on failure.
\<close>

definition GetNextPacketSize :: "world \<Rightarrow> HRESULT \<times> UINT32 \<times> world" where
  "GetNextPacketSize w =
     (let hr = (case packet_size_results w of [] \<Rightarrow> S_OK | r # rest \<Rightarrow> r);
          packetLength = (if FAILED hr then 0
                          else case queued w of [] \<Rightarrow> 0 | packet # rest \<Rightarrow> frameCount packet);
          w' = (call CaptureClient_GetNextPacketSize w)
                 \<lparr>packet_size_results := tl (packet_size_results w)\<rparr>
      in (hr, packetLength, w'))"

text \<open>
  One step of the Capture Thread from each position: the entry prints the flag, the loop
  test reads \<^verbatim>\<open>m_capturing\<close>, the body sleeps, prints and asks for the next packet
  size. Both outcomes of \<^verbatim>\<open>FAILED(hr)\<close> lead back to the loop test: nothing follows
  the \<^verbatim>\<open>continue\<close> in the body. The flag is written by other threads between steps.
\<close>

fun CaptureThread_at :: "thread_pc \<Rightarrow> world \<Rightarrow> world" where
  "CaptureThread_at At_entry w =
     (print (''HELLO?'' @ (if m_capturing w then ''1'' else ''0'')) w)\<lparr>thread := At_while\<rparr>"
| "CaptureThread_at At_while w =
     (if m_capturing w then w\<lparr>thread := At_Sleep\<rparr> else w\<lparr>thread := Returned\<rparr>)"
| "CaptureThread_at At_Sleep w =
     (print (''HI'' @ endl) (call (Sleep 10) w))\<lparr>thread := At_GetNextPacketSize\<rparr>"
| "CaptureThread_at At_GetNextPacketSize w =
     (case m_captureClient w of
        None \<Rightarrow> w\<lparr>thread := Faulted\<rparr>
      | Some client \<Rightarrow>
          (case GetNextPacketSize w of
             (hr, packetLength, w') \<Rightarrow>
               if FAILED hr then w'\<lparr>thread := At_while\<rparr> else w'\<lparr>thread := At_while\<rparr>))"
| "CaptureThread_at No_thread w = w"
| "CaptureThread_at Returned w = w"
| "CaptureThread_at Faulted w = w"

definition CaptureThread_step :: "world \<Rightarrow> world" where
  "CaptureThread_step w = CaptureThread_at (thread w) w"

text \<open>\<open>n\<close> consecutive steps of the Capture Thread.\<close>

fun CaptureThread_steps :: "nat \<Rightarrow> world \<Rightarrow> world" where
  "CaptureThread_steps 0 w = w"
| "CaptureThread_steps (Suc n) w = CaptureThread_steps n (CaptureThread_step w)"

subsection \<open>Reading the trace\<close>

text \<open>How often a call occurs in the trace.\<close>

definition times_called :: "call \<Rightarrow> world \<Rightarrow> nat" where
  "times_called c w = count_list (calls w) c"

text \<open>
  A \<^verbatim>\<open>REFERENCE_TIME\<close> counts units of 100 nanoseconds (platform documentation), so a
  duration of \<open>t\<close> units lasts \<open>100 * t\<close> nanoseconds. The buffer durations a session has
  asked for are the third arguments of the \<^verbatim>\<open>Initialize\<close> calls in its trace.
\<close>

definition hns_to_ns :: "REFERENCE_TIME \<Rightarrow> int" where
  "hns_to_ns t = sint t * 100"

fun requested_buffer_ns :: "call \<Rightarrow> int option" where
  "requested_buffer_ns (AudioClient_Initialize mode flags duration period format) =
     Some (hns_to_ns duration)"
| "requested_buffer_ns c = None"

definition requested_buffers_ns :: "world \<Rightarrow> int list" where
  "requested_buffers_ns w = List.map_filter requested_buffer_ns (calls w)"

text \<open>The Capture Thread is inside \<^verbatim>\<open>CaptureThread\<close>: created, not returned, not faulted.\<close>

definition in_loop :: "world \<Rightarrow> bool" where
  "in_loop w = (thread w = At_entry \<or> thread w = At_while \<or> thread w = At_Sleep \<or>
                thread w = At_GetNextPacketSize)"

section \<open>Concrete desktops, command lines, platforms and sessions\<close>

text \<open>The instances at which the properties below are evaluated.\<close>

definition untitled_window :: top_level_window where
  "untitled_window =
     \<lparr>hwnd_of = 0x10010, is_visible = True, window_text = [], owner_process = 4,
      process_openable = True, module_base_name = Some ''shell.exe''\<rparr>"

definition long_window :: top_level_window where
  "long_window =
     \<lparr>hwnd_of = 0x20020, is_visible = True, window_text = replicate 300 (CHR ''a''),
      owner_process = 1234, process_openable = False, module_base_name = None\<rparr>"

definition runtime_ok :: runtime where
  "runtime_ok =
     \<lparr>wcstoul = (\<lambda>s. 1234), setmode_result = 0, StartCaptureAsync = (\<lambda>pid incl. S_OK)\<rparr>"

text \<open>The command line \<^verbatim>\<open>a 1234 exclude\<close>.\<close>

definition argv_exclude :: "wstring list" where
  "argv_exclude = [[0x61], [0x31, 0x32, 0x33, 0x34], L_exclude]"

text \<open>A platform on which every call succeeds.\<close>

definition platform_ok :: platform where
  "platform_ok =
     \<lparr>GetActivateResult_hr = S_OK,
      GetActivateResult_activateResult = S_OK,
      GetActivateResult_interface = Some 1,
      QueryInterface_hr = S_OK,
      QueryInterface_out = Some 2,
      Initialize_hr = S_OK,
      GetBufferSize_hr = S_OK,
      GetBufferSize_frames = 882,
      GetService_hr = S_OK,
      GetService_out = Some 3,
      Start_hr = S_OK,
      CreateThread_handle = 44,
      Stop_hr = S_OK\<rparr>"

text \<open>A session as constructed, and the session after a successful activation callback.\<close>

definition new_session :: world where
  "new_session = LoopbackCapture 11 12 13 0 0"

definition started_session :: world where
  "started_session = snd (ActivateCompleted platform_ok new_session)"

text \<open>Two packets of 960 stereo 16-bit frames, and the started session with both queued.\<close>

definition packet_a :: AudioPacket where
  "packet_a = \<lparr>frameCount = 960, data = replicate 3840 1\<rparr>"

definition packet_b :: AudioPacket where
  "packet_b = \<lparr>frameCount = 960, data = replicate 3840 2\<rparr>"

definition streaming_session :: world where
  "streaming_session = started_session\<lparr>queued := [packet_a, packet_b]\<rparr>"

text \<open>The started session whose stream fails three times in a row.\<close>

definition failing_session :: world where
  "failing_session = started_session\<lparr>packet_size_results := [E_FAIL, E_FAIL, E_FAIL]\<rparr>"

text \<open>A constructed session that has been handed an audio client, before \<^verbatim>\<open>OnAudioClientReady\<close>.\<close>

definition activated_session :: world where
  "activated_session = new_session\<lparr>m_audioClient := Some 2\<rparr>"

text \<open>
  Platforms that fail at one point: \<^verbatim>\<open>Initialize\<close> returns
  \<^verbatim>\<open>AUDCLNT_E_UNSUPPORTED_FORMAT\<close> (and \<^verbatim>\<open>GetBufferSize\<close> then either succeeds or
  returns \<^verbatim>\<open>AUDCLNT_E_NOT_INITIALIZED\<close>); the activation result is \<^verbatim>\<open>E_ACCESSDENIED\<close>
  while an interface pointer is returned.
\<close>

definition platform_Initialize_fails :: platform where
  "platform_Initialize_fails = platform_ok\<lparr>Initialize_hr := 0x88890008\<rparr>"

definition platform_not_initialized :: platform where
  "platform_not_initialized =
     platform_ok\<lparr>Initialize_hr := 0x88890008, GetBufferSize_hr := 0x88890001\<rparr>"

definition platform_denied :: platform where
  "platform_denied = platform_ok\<lparr>GetActivateResult_activateResult := 0x80070005\<rparr>"

text \<open>
  A platform whose stream refuses to stop (\<^verbatim>\<open>AUDCLNT_E_NOT_INITIALIZED\<close>), and the
  started session as \<^verbatim>\<open>StopCapture\<close> leaves it.
\<close>

definition platform_Stop_fails :: platform where
  "platform_Stop_fails = platform_ok\<lparr>Stop_hr := 0x88890001\<rparr>"

definition stopped_session :: world where
  "stopped_session =
     started_session\<lparr>m_capturing := False, m_captureThread := NULL, m_captureEvent := NULL,
       calls := calls started_session @ [CloseHandle 44, AudioClient_Stop, CloseHandle 13]\<rparr>"

section \<open>Properties of the Process Enumerator\<close>

lemma EnumWindows_filter:
  "EnumWindows desktop windows = windows @ map make_info (filter listed desktop)"
  by (induction desktop arbitrary: windows) (simp_all add: EnumWindowsProc_def listed_def)

lemma filter_titled_filter:
  "filter_titled apps acc = acc @ filter (\<lambda>app. windowTitle app \<noteq> []) apps"
  by (induction apps arbitrary: acc) simp_all

lemma windowTitle_make_info: "windowTitle (make_info hwnd) = read_title hwnd"
  by (simp add: make_info_def)

lemma appsWithTitles_filter:
  "appsWithTitles desktop = map make_info (filter listed desktop)"
proof -
  have "filter (\<lambda>app. windowTitle app \<noteq> []) (map make_info (filter listed desktop))
        = map make_info (filter listed desktop)"
    by (rule filter_True) (auto simp: windowTitle_make_info listed_def)
  then show ?thesis
    by (simp add: appsWithTitles_def EnumWindows_filter filter_titled_filter)
qed

lemma PrintApplicationsWithWindows_concat:
  "PrintApplicationsWithWindows apps out = out @ concat (map print_app apps)"
  by (induction apps arbitrary: out) simp_all

lemma read_title_take: "read_title hwnd = c_string (take 255 (window_text hwnd))"
  by (simp add: read_title_def GetWindowTextA_def)

lemma length_read_title: "length (read_title hwnd) \<le> 255"
proof -
  have "length (read_title hwnd) \<le> length (take 255 (window_text hwnd))"
    unfolding read_title_take c_string_def
    using length_takeWhile_le [of _ "take 255 (window_text hwnd)"] by simp
  then show ?thesis by simp
qed

text \<open>
  C8, as the code has it. The output is the concatenation, in enumeration order, of one
  line \<^verbatim>\<open>processId;windowHandle;windowTitle\<close> for each window that is visible and whose
  title, as read into the 256-byte buffer, is not empty. Nothing is sorted and nothing is
  dropped as a duplicate; a visible window with an empty title has no line.
\<close>

theorem enumerator_output:
  "ProcessList_main desktop =
     concat (map (\<lambda>hwnd. dec (unat (owner_process hwnd)) @ '';'' @
                          dec (unat (ucast (hwnd_of hwnd) :: 32 word)) @ '';'' @
                          c_string (take 255 (window_text hwnd)) @ [CHR 0x0A])
                 (filter (\<lambda>hwnd. is_visible hwnd \<and> c_string (take 255 (window_text hwnd)) \<noteq> [])
                    desktop))"
proof -
  have "print_app (make_info hwnd) =
          dec (unat (owner_process hwnd)) @ '';'' @
          dec (unat (ucast (hwnd_of hwnd) :: 32 word)) @ '';'' @
          c_string (take 255 (window_text hwnd)) @ [CHR 0x0A]" for hwnd
    by (simp add: print_app_def make_info_def read_title_take)
  moreover have "listed = (\<lambda>hwnd. is_visible hwnd \<and> c_string (take 255 (window_text hwnd)) \<noteq> [])"
    by (rule ext) (simp add: listed_def read_title_take)
  ultimately show ?thesis
    by (simp add: ProcessList_main_def appsWithTitles_filter
        PrintApplicationsWithWindows_concat comp_def)
qed

text \<open>
  C8, as the specification states it, fails on a desktop whose only window is visible and untitled:
  there is one visible top-level window and no record.
\<close>

theorem enumerator_counterexample:
  "length (filter is_visible [untitled_window]) = 1 \<and>
   length (appsWithTitles [untitled_window]) = 0 \<and>
   ProcessList_main [untitled_window] = []"
  by (simp add: untitled_window_def ProcessList_main_def appsWithTitles_def EnumWindowsProc_def
      read_title_def GetWindowTextA_def c_string_def)

text \<open>
  C10. The output consists of the printed entries of \<open>appsWithTitles\<close>. Each entry's title
  has at most 255 bytes and is not empty; it is the text of a visible window cut to the
  first 255 bytes (and at the first NUL). A window whose title read this way is empty has
  no entry.
\<close>

theorem windowTitle_bounded:
  "ProcessList_main desktop = concat (map print_app (appsWithTitles desktop)) \<and>
   (\<forall>app \<in> set (appsWithTitles desktop).
      length (windowTitle app) \<le> 255 \<and> windowTitle app \<noteq> [] \<and>
      (\<exists>hwnd \<in> set desktop. is_visible hwnd \<and> app = make_info hwnd \<and>
         windowTitle app = c_string (take 255 (window_text hwnd)))) \<and>
   (\<forall>hwnd \<in> set desktop.
      c_string (take 255 (window_text hwnd)) = [] \<longrightarrow>
      make_info hwnd \<notin> set (appsWithTitles desktop))"
proof -
  have out: "ProcessList_main desktop = concat (map print_app (appsWithTitles desktop))"
    by (simp add: ProcessList_main_def PrintApplicationsWithWindows_concat)
  have each: "length (windowTitle app) \<le> 255 \<and> windowTitle app \<noteq> [] \<and>
      (\<exists>hwnd \<in> set desktop. is_visible hwnd \<and> app = make_info hwnd \<and>
         windowTitle app = c_string (take 255 (window_text hwnd)))"
    if "app \<in> set (appsWithTitles desktop)" for app
  proof -
    from that obtain hwnd where h: "hwnd \<in> set desktop" "listed hwnd" "app = make_info hwnd"
      by (auto simp: appsWithTitles_filter)
    then show ?thesis
      using length_read_title [of hwnd]
      by (auto simp: listed_def windowTitle_make_info read_title_take [symmetric])
  qed
  have omitted: "make_info hwnd \<notin> set (appsWithTitles desktop)"
    if "c_string (take 255 (window_text hwnd)) = []" for hwnd
  proof
    assume "make_info hwnd \<in> set (appsWithTitles desktop)"
    then have "windowTitle (make_info hwnd) \<noteq> []"
      using each by blast
    with that show False by (simp add: windowTitle_make_info read_title_take)
  qed
  from out each omitted show ?thesis by blast
qed

theorem windowTitle_bounded_witness:
  "length (window_text long_window) = 300 \<and>
   appsWithTitles [long_window, untitled_window] = [make_info long_window] \<and>
   length (windowTitle (make_info long_window)) = 255 \<and>
   c_string (take 255 (window_text untitled_window)) = [] \<and>
   make_info untitled_window \<notin> set (appsWithTitles [long_window, untitled_window])"
  using windowTitle_bounded [of "[long_window, untitled_window]"]
  by (simp add: appsWithTitles_filter listed_def read_title_take windowTitle_make_info
      c_string_def long_window_def untitled_window_def)

section \<open>Properties of the command line\<close>

lemma wcscmp_eq_0_iff: "wcscmp a b = 0 \<longleftrightarrow> a = b"
proof (induction a b rule: wcscmp.induct)
  case (4 x xs y ys)
  then show ?case by (cases "x < y"; cases "y < x") auto
qed simp_all

lemma include_flag_iff:
  "include_flag argv = (\<not> (3 \<le> length argv \<and> argv ! 2 = L_exclude))"
  by (simp add: include_flag_def wcscmp_eq_0_iff)

lemma requested_include_wmain:
  "requested_include (wmain rt argv) = Some incl \<Longrightarrow> incl = include_flag argv"
  by (auto simp: wmain_def Let_def split: if_splits)

lemma FAILED_S_OK [simp]: "\<not> FAILED S_OK"
  by (simp add: FAILED_def S_OK_def)

lemma FAILED_E_FAIL [simp]: "FAILED E_FAIL"
  by (simp add: FAILED_def E_FAIL_def)

lemma FAILED_codes [simp]:
  "FAILED (0x88890008 :: HRESULT)" "FAILED (0x88890001 :: HRESULT)"
  "FAILED (0x80070005 :: HRESULT)"
  by (simp_all add: FAILED_def)

text \<open>
  C9. The local \<^verbatim>\<open>include\<close> of \<^verbatim>\<open>wmain\<close> is false exactly when a third element of
  \<open>argv\<close> exists (the second argument after the program name) and is the string
  \<^verbatim>\<open>exclude\<close>; with any other second argument, or none, it is true. Whenever \<^verbatim>\<open>wmain\<close>
  reaches the capture call, this is the value it passes.
\<close>

theorem wmain_include_iff_exclude:
  "(include_flag argv = False) = (3 \<le> length argv \<and> argv ! 2 = L_exclude) \<and>
   (requested_include (wmain rt argv) = Some incl \<longrightarrow>
      (incl = False) = (3 \<le> length argv \<and> argv ! 2 = L_exclude))"
  using include_flag_iff [of argv] requested_include_wmain [of rt argv incl] by blast

theorem wmain_include_iff_exclude_witness:
  "requested_include (wmain runtime_ok argv_exclude) = Some False \<and>
   3 \<le> length argv_exclude \<and> argv_exclude ! 2 = L_exclude \<and>
   include_flag argv_exclude = False"
  using wmain_include_iff_exclude [of argv_exclude runtime_ok False]
  by (simp add: wmain_def runtime_ok_def argv_exclude_def Let_def)

section \<open>The concrete sessions, evaluated\<close>

lemma show_hr_S_OK: "show_hr S_OK = ''0''"
  by (simp add: show_hr_def S_OK_def dec.simps digit_char_def)

lemma activated_session_eq:
  "activated_session =
     \<lparr>m_captureClient = None, m_captureReadyEvent = 11, m_captureEvent = 13,
      m_stopEvent = 12, bufferFrameCount = 0, m_captureThread = 0, m_capturing = False,
      m_audioClient = Some 2, handler_m_parent = True, handler_m_audioClient = None,
      calls = [CoInitializeEx, CreateEvent True False, CreateEvent True False,
               CreateEvent False False],
      cout = ''HERE?HERE2?HERE3?'', thread = No_thread, queued = [],
      packet_size_results = []\<rparr>"
  by (simp add: activated_session_def new_session_def LoopbackCapture_def)

lemma started_session_eq:
  "started_session =
     \<lparr>m_captureClient = Some 3, m_captureReadyEvent = 11, m_captureEvent = 13,
      m_stopEvent = 12, bufferFrameCount = 882, m_captureThread = 44, m_capturing = True,
      m_audioClient = Some 2, handler_m_parent = True, handler_m_audioClient = Some 2,
      calls = [CoInitializeEx, CreateEvent True False, CreateEvent True False,
               CreateEvent False False, GetActivateResult, QueryInterface_IAudioClient,
               Initialize_call, AudioClient_GetBufferSize, AudioClient_GetService,
               AudioClient_Start, CreateThread, IUnknown_Release],
      cout = ''HERE?HERE2?HERE3?ACTIVATED'' @ endl @
             ''Here11?0Here12?0Here13?0Starting...'' @ endl @
             ''Started loopback capture...'' @ endl @ ''ALL GOOD'' @ endl,
      thread = At_entry, queued = [], packet_size_results = []\<rparr>"
  by (simp add: started_session_def ActivateCompleted_def OnAudioClientReady_def
      new_session_def LoopbackCapture_def platform_ok_def call_def print_def Let_def NULL_def
      show_hr_S_OK)

section \<open>Properties of OnAudioClientReady\<close>

text \<open>
  A failure of \<^verbatim>\<open>GetBufferSize\<close>, \<^verbatim>\<open>GetService\<close> or \<^verbatim>\<open>Start\<close> is returned as it
  is, and then the flag is not set and no thread is created.
\<close>

lemma OnAudioClientReady_checked_steps:
  assumes "m_audioClient w \<noteq> None"
    and "FAILED (GetBufferSize_hr p) \<or> FAILED (GetService_hr p) \<or> FAILED (Start_hr p)"
  shows "FAILED (fst (OnAudioClientReady p w)) \<and>
         fst (OnAudioClientReady p w) =
           (if FAILED (GetBufferSize_hr p) then GetBufferSize_hr p
            else if FAILED (GetService_hr p) then GetService_hr p else Start_hr p) \<and>
         m_capturing (snd (OnAudioClientReady p w)) = m_capturing w \<and>
         thread (snd (OnAudioClientReady p w)) = thread w \<and>
         times_called CreateThread (snd (OnAudioClientReady p w)) = times_called CreateThread w"
  using assms
  by (auto simp add: OnAudioClientReady_def call_def print_def Let_def times_called_def
      Initialize_call_def)

text \<open>
  C3 fails on the code for the first step of the chain. When \<^verbatim>\<open>Initialize\<close> fails and
  the later calls succeed, \<^verbatim>\<open>OnAudioClientReady\<close> returns \<open>S_OK\<close>, sets
  \<^verbatim>\<open>m_capturing\<close> and creates the Capture Thread. When \<^verbatim>\<open>GetBufferSize\<close> then fails
  as well, the code returned is that of \<^verbatim>\<open>GetBufferSize\<close>, not the originating one.
\<close>

theorem OnAudioClientReady_Initialize_unchecked:
  "FAILED (Initialize_hr platform_Initialize_fails) \<and>
   fst (OnAudioClientReady platform_Initialize_fails activated_session) = S_OK \<and>
   m_capturing (snd (OnAudioClientReady platform_Initialize_fails activated_session)) \<and>
   thread (snd (OnAudioClientReady platform_Initialize_fails activated_session)) = At_entry \<and>
   times_called CreateThread
     (snd (OnAudioClientReady platform_Initialize_fails activated_session)) = 1 \<and>
   Initialize_hr platform_not_initialized = 0x88890008 \<and>
   fst (OnAudioClientReady platform_not_initialized activated_session) = 0x88890001"
  by (simp add: platform_Initialize_fails_def platform_not_initialized_def platform_ok_def
      activated_session_eq OnAudioClientReady_def call_def print_def Let_def NULL_def
      times_called_def Initialize_call_def)

lemma Initialize_call_eq:
  "Initialize_call =
     AudioClient_Initialize 0 0x60000 200000 0x80000000
       \<lparr>wFormatTag = 1, nChannels = 2, nSamplesPerSec = 44100, nAvgBytesPerSec = 176400,
        nBlockAlign = 4, wBitsPerSample = 16, cbSize = 0\<rparr>"
  by (simp add: Initialize_call_def captureFormat_def WAVE_FORMAT_PCM_def Let_def
      AUDCLNT_SHAREMODE_SHARED_def AUDCLNT_STREAMFLAGS_LOOPBACK_def
      AUDCLNT_STREAMFLAGS_EVENTCALLBACK_def AUDCLNT_STREAMFLAGS_AUTOCONVERTPCM_def
      hnsBufferDuration_def)

lemma OnAudioClientReady_first_call:
  assumes "m_audioClient w \<noteq> None"
  shows "\<exists>rest. calls (snd (OnAudioClientReady p w)) = calls w @ Initialize_call # rest \<and>
           List.map_filter requested_buffer_ns rest = []"
  using assms
  by (auto simp add: OnAudioClientReady_def call_def print_def Let_def List.map_filter_simps)

text \<open>
  C4, as the code has it. The first platform call of \<^verbatim>\<open>OnAudioClientReady\<close> is
  \<^verbatim>\<open>Initialize\<close> with the fixed format (PCM, 2 channels, 44100 Hz, 16 bits, 4 bytes per
  frame) and a buffer duration of 200000 units of 100 ns: 20 milliseconds. It is the only
  buffer the call asks for.
\<close>

theorem Initialize_requests_20_ms:
  assumes "m_audioClient w \<noteq> None"
  shows "requested_buffers_ns (snd (OnAudioClientReady p w)) =
           requested_buffers_ns w @ [20 * 1000000] \<and>
         calls (snd (OnAudioClientReady p w)) ! length (calls w) =
           AudioClient_Initialize 0 0x60000 200000 0x80000000
             \<lparr>wFormatTag = 1, nChannels = 2, nSamplesPerSec = 44100, nAvgBytesPerSec = 176400,
              nBlockAlign = 4, wBitsPerSample = 16, cbSize = 0\<rparr>"
proof -
  have ns: "requested_buffer_ns Initialize_call = Some (20 * 1000000)"
    unfolding Initialize_call_eq by (simp add: hns_to_ns_def)
  obtain rest where r: "calls (snd (OnAudioClientReady p w)) = calls w @ Initialize_call # rest"
    "List.map_filter requested_buffer_ns rest = []"
    using OnAudioClientReady_first_call [OF assms] by blast
  have "requested_buffers_ns (snd (OnAudioClientReady p w)) =
      requested_buffers_ns w @ [20 * 1000000]"
    unfolding requested_buffers_ns_def r(1)
    using r(2) ns by (simp add: List.map_filter_def)
  moreover have "calls (snd (OnAudioClientReady p w)) ! length (calls w) = Initialize_call"
    unfolding r(1) by simp
  ultimately show ?thesis
    unfolding Initialize_call_eq by simp
qed

theorem Initialize_requests_20_ms_witness:
  "m_audioClient activated_session \<noteq> None \<and>
   requested_buffers_ns activated_session = [] \<and>
   requested_buffers_ns (snd (OnAudioClientReady platform_ok activated_session)) = [20 * 1000000]"
  using Initialize_requests_20_ms [of activated_session platform_ok]
  by (simp add: activated_session_eq requested_buffers_ns_def List.map_filter_simps)

text \<open>
  C4, as the specification states it, fails: the one buffer duration asked for on the way to a
  running session is 20 000 000 ns, less than the 200 000 000 ns of 200 milliseconds.
\<close>

theorem Initialize_200_ms_counterexample:
  "requested_buffers_ns (snd (OnAudioClientReady platform_ok activated_session)) = [20000000] \<and>
   \<not> (200 * 1000000 \<le> (20000000 :: int))"
  by (simp add: activated_session_eq requested_buffers_ns_def List.map_filter_simps
      OnAudioClientReady_def platform_ok_def call_def print_def Let_def NULL_def
      Initialize_call_def hnsBufferDuration_def hns_to_ns_def)

section \<open>Properties of ActivateCompleted\<close>

lemma OnAudioClientReady_no_Release:
  "times_called IUnknown_Release (snd (OnAudioClientReady p w)) = times_called IUnknown_Release w"
  by (simp add: OnAudioClientReady_def call_def print_def Let_def times_called_def
      Initialize_call_def)

text \<open>
  Past the test of the activation result, the callback releases the interface exactly
  once, whether the capability query fails or not.
\<close>

lemma ActivateCompleted_releases_later_paths:
  assumes "\<not> FAILED (GetActivateResult_hr p)" "\<not> FAILED (GetActivateResult_activateResult p)"
    "GetActivateResult_interface p \<noteq> None"
  shows "times_called IUnknown_Release (snd (ActivateCompleted p w)) =
           Suc (times_called IUnknown_Release w)"
proof -
  have r: "times_called IUnknown_Release (call IUnknown_Release v) =
      Suc (times_called IUnknown_Release v)" for v
    by (simp add: times_called_def call_def)
  have k: "times_called IUnknown_Release (print s v) = times_called IUnknown_Release v" for s v
    by (simp add: times_called_def print_def)
  have c: "c \<noteq> IUnknown_Release \<Longrightarrow>
      times_called IUnknown_Release (call c v) = times_called IUnknown_Release v" for c v
    by (simp add: times_called_def call_def)
  have u: "times_called IUnknown_Release (v\<lparr>handler_m_audioClient := x\<rparr>) =
      times_called IUnknown_Release v"
    "times_called IUnknown_Release (v\<lparr>m_audioClient := x\<rparr>) = times_called IUnknown_Release v"
    for v x
    by (simp_all add: times_called_def)
  show ?thesis
    using assms
    by (simp add: ActivateCompleted_def Let_def r k c u OnAudioClientReady_no_Release)
qed

text \<open>
  C7 fails on the code for the first return of the callback. When the activation result
  is a failure and an interface pointer has been returned all the same, the callback
  returns \<open>E_FAIL\<close> after the single call \<^verbatim>\<open>GetActivateResult\<close>: the interface is not
  released.
\<close>

theorem ActivateCompleted_leaks_interface:
  "GetActivateResult_interface platform_denied = Some 1 \<and>
   FAILED (GetActivateResult_activateResult platform_denied) \<and>
   fst (ActivateCompleted platform_denied new_session) = E_FAIL \<and>
   calls (snd (ActivateCompleted platform_denied new_session)) =
     calls new_session @ [GetActivateResult] \<and>
   times_called IUnknown_Release (snd (ActivateCompleted platform_denied new_session)) = 0"
  by (simp add: platform_denied_def platform_ok_def new_session_def LoopbackCapture_def
      ActivateCompleted_def call_def print_def Let_def times_called_def)

section \<open>Counting steps of the Capture Thread\<close>

lemma CaptureThread_steps_1: "CaptureThread_steps 1 w = CaptureThread_step w"
  by simp

lemma CaptureThread_steps_2:
  "CaptureThread_steps 2 w = CaptureThread_step (CaptureThread_step w)"
  by (simp add: numeral_2_eq_2)

lemma CaptureThread_steps_3:
  "CaptureThread_steps 3 w = CaptureThread_step (CaptureThread_step (CaptureThread_step w))"
  by (simp add: numeral_3_eq_3)

section \<open>Properties of StopCapture\<close>

text \<open>
  C6, as the code has it. On a session that is not capturing, \<^verbatim>\<open>StopCapture\<close> returns
  \<open>S_OK\<close> and leaves the session and the trace as they are: no handle is closed and the
  stream is not touched. After any call that has returned, a second call returns \<open>S_OK\<close>
  and changes nothing. On a capturing session the first call returns the result of the
  stream's \<^verbatim>\<open>Stop\<close>, whatever it is, and the second returns \<open>S_OK\<close>.
\<close>

theorem StopCapture_idempotent:
  "(\<not> m_capturing w \<longrightarrow> StopCapture p w = Inr (S_OK, w)) \<and>
   (StopCapture p w = Inr (hr, w') \<longrightarrow> StopCapture p w' = Inr (S_OK, w')) \<and>
   (m_capturing w \<and> m_audioClient w \<noteq> None \<longrightarrow>
      (\<exists>v. StopCapture p w = Inr (Stop_hr p, v) \<and> \<not> m_capturing v \<and>
           StopCapture p v = Inr (S_OK, v)))"
proof -
  have idle: "StopCapture p w = Inr (S_OK, w)" if "\<not> m_capturing w" for w
    using that by (simp add: StopCapture_def)
  have cleared: "\<not> m_capturing v" if "StopCapture p w = Inr (hr, v)" for hr v
    using that
    by (auto simp add: StopCapture_def call_def Let_def split: if_splits option.splits)
  have first: "\<exists>v. StopCapture p w = Inr (Stop_hr p, v)"
    if "m_capturing w" "m_audioClient w \<noteq> None"
    using that by (auto simp add: StopCapture_def call_def Let_def)
  have running: "\<exists>v. StopCapture p w = Inr (Stop_hr p, v) \<and> \<not> m_capturing v \<and>
      StopCapture p v = Inr (S_OK, v)"
    if cap: "m_capturing w" "m_audioClient w \<noteq> None"
  proof -
    obtain v where v: "StopCapture p w = Inr (Stop_hr p, v)"
      using first [OF cap] by blast
    then have "\<not> m_capturing v" by (rule cleared)
    with v idle [of v] show ?thesis by blast
  qed
  from idle cleared running show ?thesis by blast
qed

theorem StopCapture_idempotent_witness:
  "\<not> m_capturing new_session \<and>
   StopCapture platform_ok new_session = Inr (S_OK, new_session) \<and>
   m_capturing started_session \<and> m_audioClient started_session \<noteq> None \<and>
   StopCapture platform_ok started_session = Inr (S_OK, stopped_session) \<and>
   \<not> m_capturing stopped_session \<and>
   StopCapture platform_ok stopped_session = Inr (S_OK, stopped_session)"
  using StopCapture_idempotent [of new_session platform_ok]
    StopCapture_idempotent [of started_session platform_ok S_OK stopped_session]
  by (simp add: new_session_def LoopbackCapture_def stopped_session_def started_session_eq
      StopCapture_def call_def Let_def NULL_def platform_ok_def)

text \<open>
  C6, as the specification states it, fails on the started session when the stream's
  \<^verbatim>\<open>Stop\<close> fails: of two consecutive calls the first returns that failure, and only the
  second returns \<open>S_OK\<close>.
\<close>

theorem StopCapture_both_succeed_counterexample:
  "m_capturing started_session \<and>
   StopCapture platform_Stop_fails started_session = Inr (0x88890001, stopped_session) \<and>
   FAILED (0x88890001 :: HRESULT) \<and>
   StopCapture platform_Stop_fails stopped_session = Inr (S_OK, stopped_session)"
  by (simp add: platform_Stop_fails_def platform_ok_def stopped_session_def started_session_eq
      StopCapture_def call_def Let_def NULL_def)

text \<open>
  C2, as the code has it. On a capturing session \<^verbatim>\<open>StopCapture\<close> clears the flag, closes
  the thread handle if there is one, stops the stream and closes the capture event, in
  this order, and returns the result of the stream's \<^verbatim>\<open>Stop\<close>. It waits for nothing:
  the Capture Thread stands where it stood when the call began.
\<close>

theorem StopCapture_does_not_join:
  assumes "m_capturing w" and "m_audioClient w \<noteq> None"
  shows "\<exists>w'. StopCapture p w = Inr (Stop_hr p, w') \<and>
           thread w' = thread w \<and> \<not> m_capturing w' \<and>
           m_captureThread w' = NULL \<and> m_captureEvent w' = NULL \<and>
           calls w' = calls w @
             (if m_captureThread w \<noteq> NULL then [CloseHandle (m_captureThread w)] else []) @
             [AudioClient_Stop, CloseHandle (m_captureEvent w)]"
  using assms
  by (auto simp add: StopCapture_def call_def Let_def split: option.splits)

theorem StopCapture_does_not_join_witness:
  "m_capturing (CaptureThread_steps 2 started_session) \<and>
   m_audioClient (CaptureThread_steps 2 started_session) \<noteq> None \<and>
   thread (CaptureThread_steps 2 started_session) = At_Sleep \<and>
   (\<exists>w'. StopCapture platform_ok (CaptureThread_steps 2 started_session) = Inr (S_OK, w') \<and>
      thread w' = At_Sleep \<and> \<not> m_capturing w')"
  using StopCapture_does_not_join [of "CaptureThread_steps 2 started_session" platform_ok]
  by (simp add: CaptureThread_steps_2 started_session_eq CaptureThread_step_def print_def
      platform_ok_def StopCapture_def call_def Let_def NULL_def)

text \<open>
  C2, as the specification states it, fails on the started session once its thread has passed the
  loop test: \<^verbatim>\<open>StopCapture\<close> returns \<open>S_OK\<close> while the thread is about to sleep; after
  the return the thread still sleeps and asks the stopped stream for a packet size, and
  only its third step leaves the loop.
\<close>

theorem StopCapture_join_counterexample:
  "thread (CaptureThread_steps 2 started_session) = At_Sleep \<and>
   (case StopCapture platform_ok (CaptureThread_steps 2 started_session) of
      Inl f \<Rightarrow> False
    | Inr (hr, w') \<Rightarrow>
        hr = S_OK \<and> thread w' = At_Sleep \<and>
        calls w' = calls started_session @ [CloseHandle 44, AudioClient_Stop, CloseHandle 13] \<and>
        calls (CaptureThread_steps 2 w') = calls w' @ [Sleep 10, CaptureClient_GetNextPacketSize] \<and>
        thread (CaptureThread_steps 3 w') = Returned)"
  by (simp add: CaptureThread_steps_2 CaptureThread_steps_3 started_session_eq
      CaptureThread_step_def print_def platform_ok_def StopCapture_def call_def Let_def
      NULL_def GetNextPacketSize_def)

section \<open>Properties of the Capture Thread\<close>

lemma CaptureThread_step_queued: "queued (CaptureThread_step w) = queued w"
  by (cases "thread w")
     (simp_all add: CaptureThread_step_def print_def call_def GetNextPacketSize_def Let_def
       split: option.split)

lemma CaptureThread_step_capturing: "m_capturing (CaptureThread_step w) = m_capturing w"
  by (cases "thread w")
     (simp_all add: CaptureThread_step_def print_def call_def GetNextPacketSize_def Let_def
       split: option.split)

lemma CaptureThread_step_client: "m_captureClient (CaptureThread_step w) = m_captureClient w"
  by (cases "thread w")
     (simp_all add: CaptureThread_step_def print_def call_def GetNextPacketSize_def Let_def
       split: option.split)

lemma CaptureThread_step_calls:
  "calls (CaptureThread_step w) =
     calls w @ (if thread w = At_Sleep then [Sleep 10]
                else if thread w = At_GetNextPacketSize \<and> m_captureClient w \<noteq> None
                then [CaptureClient_GetNextPacketSize] else [])"
  by (cases "thread w")
     (auto simp add: CaptureThread_step_def print_def call_def GetNextPacketSize_def Let_def
       split: option.split)

lemma CaptureThread_steps_queued: "queued (CaptureThread_steps n w) = queued w"
  by (induction n arbitrary: w) (simp_all add: CaptureThread_step_queued)

lemma CaptureThread_steps_capturing: "m_capturing (CaptureThread_steps n w) = m_capturing w"
  by (induction n arbitrary: w) (simp_all add: CaptureThread_step_capturing)

lemma CaptureThread_steps_client: "m_captureClient (CaptureThread_steps n w) = m_captureClient w"
  by (induction n arbitrary: w) (simp_all add: CaptureThread_step_client)

lemma CaptureThread_steps_add:
  "CaptureThread_steps (m + n) w = CaptureThread_steps n (CaptureThread_steps m w)"
  by (induction m arbitrary: w) simp_all

lemma CaptureThread_steps_calls:
  "\<exists>polls. calls (CaptureThread_steps n w) = calls w @ polls \<and>
           set polls \<subseteq> {Sleep 10, CaptureClient_GetNextPacketSize}"
proof (induction n arbitrary: w)
  case 0
  show ?case by simp
next
  case (Suc n)
  obtain polls where p: "calls (CaptureThread_steps n (CaptureThread_step w)) =
      calls (CaptureThread_step w) @ polls"
    "set polls \<subseteq> {Sleep 10, CaptureClient_GetNextPacketSize}"
    using Suc.IH by blast
  obtain first where f: "calls (CaptureThread_step w) = calls w @ first"
    "set first \<subseteq> {Sleep 10, CaptureClient_GetNextPacketSize}"
    using CaptureThread_step_calls [of w] by (cases "thread w = At_Sleep") auto
  from p f have "calls (CaptureThread_steps (Suc n) w) = calls w @ (first @ polls)"
    "set (first @ polls) \<subseteq> {Sleep 10, CaptureClient_GetNextPacketSize}"
    by simp_all
  then show ?case by blast
qed

text \<open>One iteration of the loop, from the loop test back to it.\<close>

lemma CaptureThread_iteration:
  assumes "thread w = At_while" "m_capturing w" "m_captureClient w \<noteq> None"
  shows "CaptureThread_steps 3 w =
           w\<lparr>calls := calls w @ [Sleep 10, CaptureClient_GetNextPacketSize],
             cout := cout w @ ''HI'' @ endl,
             packet_size_results := tl (packet_size_results w)\<rparr>"
  using assms
  by (auto simp add: CaptureThread_steps_3 CaptureThread_step_def print_def call_def
      GetNextPacketSize_def Let_def split: option.split)

lemma CaptureThread_iterations:
  assumes "thread w = At_while" "m_capturing w" "m_captureClient w \<noteq> None"
  shows "thread (CaptureThread_steps (3 * k) w) = At_while \<and>
         packet_size_results (CaptureThread_steps (3 * k) w) = drop k (packet_size_results w) \<and>
         times_called CaptureClient_GetNextPacketSize (CaptureThread_steps (3 * k) w) =
           times_called CaptureClient_GetNextPacketSize w + k"
proof (induction k)
  case 0
  show ?case using assms(1) by simp
next
  case (Suc k)
  let ?v = "CaptureThread_steps (3 * k) w"
  have v: "thread ?v = At_while" "m_capturing ?v" "m_captureClient ?v \<noteq> None"
    using Suc.IH assms by (simp_all add: CaptureThread_steps_capturing CaptureThread_steps_client)
  have "CaptureThread_steps (3 * Suc k) w = CaptureThread_steps 3 ?v"
    using CaptureThread_steps_add [of "3 * k" 3 w] by (simp add: add.commute)
  then show ?case
    using Suc.IH
    by (simp add: CaptureThread_iteration [OF v] times_called_def drop_Suc tl_drop)
qed

lemma CaptureThread_step_in_loop:
  assumes "m_capturing w" "m_captureClient w \<noteq> None" "in_loop w"
  shows "in_loop (CaptureThread_step w)"
proof (cases "thread w")
  case At_GetNextPacketSize
  with assms(2) show ?thesis
    by (auto simp add: in_loop_def CaptureThread_step_def GetNextPacketSize_def call_def Let_def)
qed (use assms in \<open>simp_all add: in_loop_def CaptureThread_step_def print_def call_def\<close>)

lemma CaptureThread_steps_in_loop:
  "m_capturing w \<Longrightarrow> m_captureClient w \<noteq> None \<Longrightarrow> in_loop w \<Longrightarrow>
   in_loop (CaptureThread_steps n w)"
proof (induction n arbitrary: w)
  case 0
  then show ?case by simp
next
  case (Suc n)
  have "in_loop (CaptureThread_steps n (CaptureThread_step w))"
    using Suc.prems
    by (intro Suc.IH CaptureThread_step_in_loop)
       (simp_all add: CaptureThread_step_capturing CaptureThread_step_client)
  then show ?case by simp
qed

lemma streaming_after_entry:
  "CaptureThread_steps 1 streaming_session =
     streaming_session\<lparr>cout := cout streaming_session @ ''HELLO?1'', thread := At_while\<rparr>"
  by (simp add: streaming_session_def started_session_eq CaptureThread_step_def print_def)

lemma failing_after_entry:
  "CaptureThread_steps 1 failing_session =
     failing_session\<lparr>cout := cout failing_session @ ''HELLO?1'', thread := At_while\<rparr>"
  by (simp add: failing_session_def started_session_eq CaptureThread_step_def print_def)

text \<open>
  C1, as the code has it. However many steps the Capture Thread takes, the packets queued
  in the stream stay queued and the trace gains no \<^verbatim>\<open>GetBuffer\<close> and no
  \<^verbatim>\<open>ReleaseBuffer\<close>: no buffer is retrieved, so none reaches a sink and none is drained
  twice. One iteration of the loop is a sleep of 10 ms followed by
  \<^verbatim>\<open>GetNextPacketSize\<close>, whatever size that reports.
\<close>

theorem CaptureThread_never_drains:
  "queued (CaptureThread_steps n w) = queued w \<and>
   times_called CaptureClient_GetBuffer (CaptureThread_steps n w) =
     times_called CaptureClient_GetBuffer w \<and>
   times_called (CaptureClient_ReleaseBuffer k) (CaptureThread_steps n w) =
     times_called (CaptureClient_ReleaseBuffer k) w \<and>
   (thread w = At_while \<and> m_capturing w \<and> m_captureClient w \<noteq> None \<longrightarrow>
      calls (CaptureThread_steps 3 w) = calls w @ [Sleep 10, CaptureClient_GetNextPacketSize] \<and>
      thread (CaptureThread_steps 3 w) = At_while)"
proof -
  obtain polls where p: "calls (CaptureThread_steps n w) = calls w @ polls"
    "set polls \<subseteq> {Sleep 10, CaptureClient_GetNextPacketSize}"
    using CaptureThread_steps_calls by blast
  have "c \<notin> {Sleep 10, CaptureClient_GetNextPacketSize} \<Longrightarrow> count_list polls c = 0" for c
    using p(2) by (auto simp: count_list_0_iff)
  then have "times_called c (CaptureThread_steps n w) = times_called c w"
    if "c \<notin> {Sleep 10, CaptureClient_GetNextPacketSize}" for c
    using that p(1) by (simp add: times_called_def)
  then show ?thesis
    by (simp add: CaptureThread_steps_queued CaptureThread_iteration)
qed

theorem CaptureThread_never_drains_witness:
  "thread (CaptureThread_steps 1 streaming_session) = At_while \<and>
   m_capturing (CaptureThread_steps 1 streaming_session) \<and>
   m_captureClient (CaptureThread_steps 1 streaming_session) \<noteq> None \<and>
   queued (CaptureThread_steps 3 (CaptureThread_steps 1 streaming_session)) =
     [packet_a, packet_b] \<and>
   thread (CaptureThread_steps 3 (CaptureThread_steps 1 streaming_session)) = At_while"
  using CaptureThread_never_drains [of 3 "CaptureThread_steps 1 streaming_session" 960]
  unfolding streaming_after_entry
  by (simp add: streaming_session_def started_session_eq)

text \<open>
  C1, as the specification states it, fails on the started session with two packets queued. The
  stream reports a packet of 960 frames; after two full iterations of the loop the thread
  has asked for the packet size twice, has retrieved no buffer, and both packets are
  still queued.
\<close>

theorem CaptureThread_drain_counterexample:
  "queued streaming_session = [packet_a, packet_b] \<and>
   fst (snd (GetNextPacketSize streaming_session)) = 960 \<and>
   thread (CaptureThread_steps 7 streaming_session) = At_while \<and>
   times_called CaptureClient_GetNextPacketSize (CaptureThread_steps 7 streaming_session) = 2 \<and>
   times_called CaptureClient_GetBuffer (CaptureThread_steps 7 streaming_session) = 0 \<and>
   queued (CaptureThread_steps 7 streaming_session) = [packet_a, packet_b]"
proof -
  have seven: "CaptureThread_steps 7 streaming_session =
      CaptureThread_steps 3 (CaptureThread_steps 3 (CaptureThread_steps 1 streaming_session))"
    using CaptureThread_steps_add [of 1 6 streaming_session]
      CaptureThread_steps_add [of 3 3 "CaptureThread_steps 1 streaming_session"]
    by simp
  have after: "CaptureThread_steps 7 streaming_session =
      streaming_session\<lparr>calls := calls streaming_session @
           [Sleep 10, CaptureClient_GetNextPacketSize, Sleep 10, CaptureClient_GetNextPacketSize],
         cout := cout streaming_session @ ''HELLO?1'' @ ''HI'' @ endl @ ''HI'' @ endl,
         packet_size_results := [],
         thread := At_while\<rparr>"
    unfolding seven streaming_after_entry
    by (simp add: CaptureThread_iteration streaming_session_def started_session_eq)
  show ?thesis
    unfolding after
    by (simp add: streaming_session_def started_session_eq times_called_def
        GetNextPacketSize_def Let_def packet_a_def Initialize_call_def)
qed

text \<open>
  C5, as the code has it. While the flag is set, the Capture Thread neither returns nor
  faults, whatever results \<^verbatim>\<open>GetNextPacketSize\<close> gives and however many of them are
  failures in a row: after \<open>k\<close> iterations it is at the loop test again, \<open>k\<close> results
  consumed. The thread itself never clears the flag.
\<close>

theorem CaptureThread_failures_never_fatal:
  assumes "thread w = At_while" and "m_capturing w" and "m_captureClient w \<noteq> None"
  shows "m_capturing (CaptureThread_steps n w) \<and>
         thread (CaptureThread_steps n w) \<noteq> Returned \<and>
         thread (CaptureThread_steps n w) \<noteq> Faulted \<and>
         thread (CaptureThread_steps (3 * k) w) = At_while \<and>
         packet_size_results (CaptureThread_steps (3 * k) w) = drop k (packet_size_results w) \<and>
         times_called CaptureClient_GetNextPacketSize (CaptureThread_steps (3 * k) w) =
           times_called CaptureClient_GetNextPacketSize w + k"
proof -
  have "in_loop (CaptureThread_steps n w)"
    using assms by (intro CaptureThread_steps_in_loop) (simp_all add: in_loop_def)
  then have "thread (CaptureThread_steps n w) \<noteq> Returned"
    "thread (CaptureThread_steps n w) \<noteq> Faulted"
    by (auto simp: in_loop_def)
  then show ?thesis
    using assms CaptureThread_iterations [OF assms, of k]
    by (simp add: CaptureThread_steps_capturing)
qed

theorem CaptureThread_failures_never_fatal_witness:
  "thread (CaptureThread_steps 1 failing_session) = At_while \<and>
   m_capturing (CaptureThread_steps 1 failing_session) \<and>
   m_captureClient (CaptureThread_steps 1 failing_session) \<noteq> None \<and>
   packet_size_results (CaptureThread_steps 1 failing_session) = [E_FAIL, E_FAIL, E_FAIL] \<and>
   thread (CaptureThread_steps (3 * 3) (CaptureThread_steps 1 failing_session)) = At_while \<and>
   packet_size_results (CaptureThread_steps (3 * 3) (CaptureThread_steps 1 failing_session)) = [] \<and>
   m_capturing (CaptureThread_steps 20 (CaptureThread_steps 1 failing_session)) \<and>
   thread (CaptureThread_steps 20 (CaptureThread_steps 1 failing_session)) \<noteq> Returned"
  using CaptureThread_failures_never_fatal [of "CaptureThread_steps 1 failing_session" 20 3]
  unfolding failing_after_entry
  by (simp add: failing_session_def started_session_eq)

text \<open>
  C5, as the specification states it, fails on the started session whose stream fails three times in
  a row: after the third failure the thread is back at the loop test with the flag still
  set, and its next step enters a fourth iteration.
\<close>

theorem CaptureThread_failures_counterexample:
  "packet_size_results failing_session = [E_FAIL, E_FAIL, E_FAIL] \<and> FAILED E_FAIL \<and>
   times_called CaptureClient_GetNextPacketSize (CaptureThread_steps 10 failing_session) = 3 \<and>
   packet_size_results (CaptureThread_steps 10 failing_session) = [] \<and>
   m_capturing (CaptureThread_steps 10 failing_session) \<and>
   thread (CaptureThread_steps 10 failing_session) = At_while \<and>
   thread (CaptureThread_steps 11 failing_session) = At_Sleep"
proof -
  have split10: "CaptureThread_steps 10 w =
      CaptureThread_steps 3 (CaptureThread_steps 3 (CaptureThread_steps 3 (CaptureThread_steps 1 w)))"
    for w
    using CaptureThread_steps_add [of 1 9 w]
      CaptureThread_steps_add [of 3 6 "CaptureThread_steps 1 w"]
      CaptureThread_steps_add [of 3 3 "CaptureThread_steps 3 (CaptureThread_steps 1 w)"]
    by simp
  have ten: "CaptureThread_steps 10 failing_session =
      failing_session\<lparr>calls := calls failing_session @
           [Sleep 10, CaptureClient_GetNextPacketSize, Sleep 10, CaptureClient_GetNextPacketSize,
            Sleep 10, CaptureClient_GetNextPacketSize],
         cout := cout failing_session @ ''HELLO?1'' @ ''HI'' @ endl @ ''HI'' @ endl @ ''HI'' @ endl,
         packet_size_results := [],
         thread := At_while\<rparr>"
    unfolding split10 failing_after_entry
    by (simp add: CaptureThread_iteration failing_session_def started_session_eq)
  have eleven: "CaptureThread_steps 11 failing_session =
      CaptureThread_step (CaptureThread_steps 10 failing_session)"
    using CaptureThread_steps_add [of 10 1 failing_session] by simp
  show ?thesis
    unfolding eleven ten
    by (simp add: failing_session_def started_session_eq times_called_def
        CaptureThread_step_def Initialize_call_def)
qed

end
